theory Spec2Isabelle
  imports Main "HOL-Library.Word"
begin

unbundle bit_operations_syntax

section \<open>Go values, errors and results\<close>

text \<open>
  A dynamic value of Go's \<open>interface{}\<close>, as far as the middleware looks at it: the nil
  interface, a string, or a value of any other dynamic type (kept with its \<open>%v\<close> text).
\<close>

datatype go_value = VNil | VString string | VOther string

text \<open>
  A Go \<open>error\<close>: a plain error made by \<open>errors.New\<close> or \<open>fmt.Errorf\<close> (its message), or the
  token library's \<open>*jwt.ValidationError\<close> with its \<open>Errors\<close> bit field and its message.
\<close>

datatype go_error = ErrorsNew string | ValidationError "32 word" string

fun Error :: "go_error \<Rightarrow> string" where
  "Error (ErrorsNew m) = m"
| "Error (ValidationError fl m) = m"

text \<open>A call either panics or returns.\<close>

datatype 'a result = Panics | Returns 'a

text \<open>\<open>fmt\<close>'s rendering of one \<open>%v\<close> argument.\<close>

fun Sprint :: "go_value \<Rightarrow> string" where
  "Sprint VNil = ''<nil>''"
| "Sprint (VString s) = s"
| "Sprint (VOther s) = s"

section \<open>Package doris: the JWT errors and codes\<close>

definition TokenExpiredErr :: go_error where
  "TokenExpiredErr = ErrorsNew ''Token is expired''"

definition TokenNotValidYetErr :: go_error where
  "TokenNotValidYetErr = ErrorsNew ''Token not active yet''"

definition TokenMalformedErr :: go_error where
  "TokenMalformedErr = ErrorsNew ''That's not even a token''"

definition TokenInvalidErr :: go_error where
  "TokenInvalidErr = ErrorsNew ''Couldn't handle this token:''"

definition JWTMissingErr :: go_error where
  "JWTMissingErr = ErrorsNew ''Missing or Malformed JWT''"

definition TokenRefreshErr :: go_error where
  "TokenRefreshErr = ErrorsNew ''This token is for refresh!''"

definition TokenExpired :: int where "TokenExpired = 10400"
definition TokenNotValidYet :: int where "TokenNotValidYet = 10401"
definition TokenMalformed :: int where "TokenMalformed = 10402"
definition TokenInvalid :: int where "TokenInvalid = 10403"
definition JWTMissing :: int where "JWTMissing = 10404"
definition TokenRefresh :: int where "TokenRefresh = 10405"

text \<open>
  Modelled from the spec: \<open>doris.Authorization\<close> is declared outside the sources at hand;
  the default token source is the header named "Authorization".
\<close>

definition Authorization :: string where
  "Authorization = ''Authorization''"

text \<open>\<open>net/http\<close>'s \<open>StatusUnauthorized\<close> and \<open>StatusBadRequest\<close>.\<close>

definition StatusUnauthorized :: nat where "StatusUnauthorized = 401"
definition StatusBadRequest :: nat where "StatusBadRequest = 400"

section \<open>The token library, as the middleware sees it\<close>

text \<open>
  The claims of a parsed token: none decoded yet, a \<open>jwt.MapClaims\<close> map, or a value of a
  user-defined claims type.
\<close>

datatype claims = NoClaims | MapClaims "string \<rightharpoonup> go_value" | CustomClaims string

text \<open>
  A \<open>*jwt.Token\<close>: \<open>Method.Alg()\<close>, \<open>Header["alg"]\<close>, \<open>Claims\<close> and \<open>Valid\<close>.
\<close>

record Token =
  Method_Alg :: string
  Header_alg :: go_value
  Token_Claims :: claims
  Token_Valid :: bool

text \<open>
  The library is a parameter: its three flag masks and its two parsers, each taking the
  token string and the key function and returning the pair \<open>(token, err)\<close>, where the
  token pointer may be nil. \<open>ParseWithClaims\<close> also takes the claims value to decode into
  (here the name of its type).
\<close>

record jwt =
  ValidationErrorMalformed :: "32 word"
  ValidationErrorExpired :: "32 word"
  ValidationErrorNotValidYet :: "32 word"
  Parse ::
    "string \<Rightarrow> (Token \<Rightarrow> go_error + string option) \<Rightarrow> Token option \<times> go_error option"
  ParseWithClaims ::
    "string \<Rightarrow> string \<Rightarrow> (Token \<Rightarrow> go_error + string option)
     \<Rightarrow> Token option \<times> go_error option"

section \<open>The request context\<close>

text \<open>
  What the middleware reads from a \<open>*doris.Context\<close>: \<open>Request.Header.Get\<close>, \<open>QueryParam\<close>,
  \<open>Param\<close> (an \<open>interface{}\<close>) and \<open>Cookie\<close> (\<open>None\<close> when it returns an error).
\<close>

record Context =
  Header_Get :: "string \<Rightarrow> string"
  QueryParam :: "string \<Rightarrow> string"
  Param :: "string \<Rightarrow> go_value"
  Cookie :: "string \<Rightarrow> string option"

text \<open>
  What the middleware does to the context and to its callbacks, in order: \<open>c.Next()\<close>,
  \<open>c.Json(status, D{"code": code, "message": message})\<close>, \<open>c.Abort()\<close>,
  \<open>c.SetParam(key, token)\<close>, and the calls of the three hooks. The framework's methods
  and the hooks are opaque, so a run of the handler is the list of these calls together
  with how it ends; the request is read as it was received.
\<close>

datatype event =
    Next
  | Json nat int string
  | Abort
  | SetParam string Token
  | CallSuccessHandler
  | CallErrorHandler "go_error option"
  | CallErrorHandlerWithContext "go_error option"

datatype outcome = Panicked | Returned "go_error option"

section \<open>The JWT middleware\<close>

text \<open>
  The dynamic type of \<open>config.Claims\<close>: \<open>jwt.MapClaims\<close>, a pointer to a claims struct, or
  a claims struct held by value.
\<close>

datatype claims_proto = ProtoMapClaims | ProtoPointer string | ProtoStruct string

record JWTConfig =
  Skipper :: "(Context \<Rightarrow> bool) option"
  SuccessHandler :: "(Context \<Rightarrow> unit) option"
  ErrorHandler :: "(go_error option \<Rightarrow> go_error option) option"
  ErrorHandlerWithContext :: "(go_error option \<Rightarrow> Context \<Rightarrow> go_error option) option"
  SigningKey :: "string option"
  SigningMethod :: string
  ContextKey :: string
  Claims :: "claims_proto option"
  TokenLookup :: string
  AuthScheme :: string

type_synonym jwtExtractor = "Context \<Rightarrow> (string \<times> go_error option) result"

definition AlgorithmHS256 :: string where
  "AlgorithmHS256 = ''HS256''"

definition DefaultSkipper :: "Context \<Rightarrow> bool" where
  "DefaultSkipper c = False"

definition DefaultJWTConfig :: JWTConfig where
  "DefaultJWTConfig =
     \<lparr>Skipper = Some DefaultSkipper, SuccessHandler = None, ErrorHandler = None,
      ErrorHandlerWithContext = None, SigningKey = None, SigningMethod = AlgorithmHS256,
      ContextKey = ''user'', Claims = Some ProtoMapClaims,
      TokenLookup = ''header:'' @ Authorization, AuthScheme = ''Bearer''\<rparr>"

subsection \<open>Extractors\<close>

definition jwtFromHeader :: "string \<Rightarrow> string \<Rightarrow> jwtExtractor" where
  "jwtFromHeader header authScheme c =
     (let auth = Header_Get c header; l = length authScheme
      in if length auth > l + 1 \<and> take l auth = authScheme
         then Returns (drop (l + 1) auth, None)
         else Returns ('''', Some JWTMissingErr))"

definition jwtFromQuery :: "string \<Rightarrow> jwtExtractor" where
  "jwtFromQuery param c =
     (let token = QueryParam c param
      in if token = '''' then Returns ('''', Some JWTMissingErr) else Returns (token, None))"

text \<open>\<open>token.(string)\<close> panics unless the parameter holds a string.\<close>

definition jwtFromParam :: "string \<Rightarrow> jwtExtractor" where
  "jwtFromParam param c =
     (let token = Param c param
      in if token = VString '''' then Returns ('''', Some JWTMissingErr)
         else (case token of VString s \<Rightarrow> Returns (s, None) | _ \<Rightarrow> Panics))"

definition jwtFromCookie :: "string \<Rightarrow> jwtExtractor" where
  "jwtFromCookie name c =
     (case Cookie c name of
        None \<Rightarrow> Returns ('''', Some JWTMissingErr)
      | Some cookie \<Rightarrow> Returns (cookie, None))"

subsection \<open>The key function\<close>

text \<open>
  It returns \<open>(nil, error)\<close> as \<open>Inl\<close> of the error and \<open>(config.SigningKey, nil)\<close> as
  \<open>Inr\<close> of the key, itself an \<open>interface{}\<close> that may be nil.
\<close>

definition keyFunc :: "JWTConfig \<Rightarrow> Token \<Rightarrow> go_error + string option" where
  "keyFunc config t =
     (if Method_Alg t \<noteq> SigningMethod config
      then Inl (ErrorsNew (''unexpected jwt signing method='' @ Sprint (Header_alg t)))
      else Inr (SigningKey config))"

subsection \<open>The handler\<close>

text \<open>
  The two error hooks, tried in the order of the source; \<open>dflt\<close> is what the handler does
  when neither is configured.
\<close>

definition error_hooks ::
  "JWTConfig \<Rightarrow> go_error option \<Rightarrow> Context \<Rightarrow> event list \<Rightarrow> event list \<times> outcome
   \<Rightarrow> event list \<times> outcome" where
  "error_hooks config err c tr dflt =
     (case ErrorHandler config of
        Some h \<Rightarrow> (tr @ [CallErrorHandler err], Returned (h err))
      | None \<Rightarrow>
          (case ErrorHandlerWithContext config of
             Some h \<Rightarrow> (tr @ [CallErrorHandlerWithContext err], Returned (h err c))
           | None \<Rightarrow> dflt))"

text \<open>
  Parsing: \<open>jwt.Parse\<close> when \<open>config.Claims\<close> is a \<open>jwt.MapClaims\<close>; otherwise a new value of
  the type \<open>config.Claims\<close> points to, where \<open>reflect\<close>'s \<open>Elem\<close> panics on a struct type
  and \<open>Type\<close> on the nil interface.
\<close>

definition parse_token ::
  "jwt \<Rightarrow> JWTConfig \<Rightarrow> string \<Rightarrow> (Token option \<times> go_error option) result" where
  "parse_token lib config auth =
     (case Claims config of
        Some ProtoMapClaims \<Rightarrow> Returns (Parse lib auth (keyFunc config))
      | Some (ProtoPointer t) \<Rightarrow> Returns (ParseWithClaims lib auth t (keyFunc config))
      | Some (ProtoStruct t) \<Rightarrow> Panics
      | None \<Rightarrow> Panics)"

text \<open>
  \<open>ok && claims["auth_type"].(string) == "refresh"\<close>: the assertion to \<open>string\<close> is
  evaluated only for map claims, and panics on a missing entry and on a value that is
  not a string.
\<close>

definition is_refresh :: "claims \<Rightarrow> bool result" where
  "is_refresh cl =
     (case cl of
        MapClaims m \<Rightarrow>
          (case m ''auth_type'' of
             Some (VString s) \<Rightarrow> Returns (s = ''refresh'')
           | _ \<Rightarrow> Panics)
      | _ \<Rightarrow> Returns False)"

text \<open>The check of the error type: the code and the message of the rejection.\<close>

definition classify :: "jwt \<Rightarrow> go_error option \<Rightarrow> int \<times> go_error option" where
  "classify lib err =
     (case err of
        Some (ValidationError ve m) \<Rightarrow>
          (if ve AND ValidationErrorMalformed lib \<noteq> 0
             then (TokenMalformed, Some TokenMalformedErr)
           else if ve AND ValidationErrorExpired lib \<noteq> 0
             then (TokenExpired, Some TokenExpiredErr)
           else if ve AND ValidationErrorNotValidYet lib \<noteq> 0
             then (TokenNotValidYet, Some TokenNotValidYetErr)
           else (TokenInvalid, Some TokenInvalidErr))
      | _ \<Rightarrow> (int StatusUnauthorized, None))"

text \<open>
  The rejection of an invalid token when no hook is configured; \<open>errMsg.Error()\<close> and
  \<open>err.Error()\<close> panic on nil.
\<close>

definition render_invalid ::
  "jwt \<Rightarrow> go_error option \<Rightarrow> event list \<Rightarrow> event list \<times> outcome" where
  "render_invalid lib err tr =
     (case classify lib err of
        (code, None) \<Rightarrow> (tr, Panicked)
      | (code, Some errMsg) \<Rightarrow>
          (case err of
             None \<Rightarrow> (tr, Panicked)
           | Some e \<Rightarrow>
               (tr @ [Json StatusUnauthorized code
                        (''Invalid or Expired JWT: '' @ Error errMsg @ '' [ origin err: ''
                           @ Error e @ '' ] ''),
                      Abort],
                Returned err)))"

text \<open>The handler from the parsed token on; \<open>token.Claims\<close> panics on a nil token.\<close>

definition judge ::
  "jwt \<Rightarrow> JWTConfig \<Rightarrow> Context \<Rightarrow> event list \<Rightarrow> Token option \<times> go_error option
   \<Rightarrow> event list \<times> outcome" where
  "judge lib config c tr p =
     (case p of
        (None, err) \<Rightarrow> (tr, Panicked)
      | (Some token, err) \<Rightarrow>
          (case is_refresh (Token_Claims token) of
             Panics \<Rightarrow> (tr, Panicked)
           | Returns True \<Rightarrow>
               (tr @ [Json StatusUnauthorized TokenRefresh
                        (''Invalid or Expired JWT: '' @ Error TokenRefreshErr),
                      Abort],
                Returned (Some TokenRefreshErr))
           | Returns False \<Rightarrow>
               (if err = None \<and> Token_Valid token
                then (tr @ [SetParam (ContextKey config) token]
                         @ (case SuccessHandler config of
                              Some h \<Rightarrow> [CallSuccessHandler]
                            | None \<Rightarrow> [])
                         @ [Next],
                      Returned None)
                else error_hooks config err c tr (render_invalid lib err tr))))"

text \<open>The closure returned by \<open>JWTWithConfig\<close>; calling a nil \<open>Skipper\<close> panics.\<close>

definition handler ::
  "jwt \<Rightarrow> JWTConfig \<Rightarrow> jwtExtractor \<Rightarrow> Context \<Rightarrow> event list \<times> outcome" where
  "handler lib config extractor c =
     (case Skipper config of
        None \<Rightarrow> ([], Panicked)
      | Some skip \<Rightarrow>
          (let tr = (if skip c then [Next] else [])
           in case extractor c of
                Panics \<Rightarrow> (tr, Panicked)
              | Returns (auth, Some err) \<Rightarrow>
                  error_hooks config (Some err) c tr
                    (tr @ [Json StatusUnauthorized (int StatusUnauthorized)
                             (''JWT ERR: '' @ Error err),
                           Abort],
                     Returned (Some err))
              | Returns (auth, None) \<Rightarrow>
                  (case parse_token lib config auth of
                     Panics \<Rightarrow> (tr, Panicked)
                   | Returns p \<Rightarrow> judge lib config c tr p)))"

subsection \<open>Setup\<close>

text \<open>\<open>strings.Split\<close> with a separator of one byte.\<close>

fun Split :: "string \<Rightarrow> char \<Rightarrow> string list" where
  "Split [] sep = [[]]"
| "Split (x # xs) sep =
     (if x = sep then [] # Split xs sep
      else (let ps = Split xs sep in (x # hd ps) # tl ps))"

definition with_defaults :: "JWTConfig \<Rightarrow> JWTConfig" where
  "with_defaults config =
     (let config = (if SigningMethod config = ''''
                    then config\<lparr>SigningMethod := SigningMethod DefaultJWTConfig\<rparr> else config);
          config = (if ContextKey config = ''''
                    then config\<lparr>ContextKey := ContextKey DefaultJWTConfig\<rparr> else config);
          config = (if Claims config = None
                    then config\<lparr>Claims := Claims DefaultJWTConfig\<rparr> else config);
          config = (if TokenLookup config = ''''
                    then config\<lparr>TokenLookup := TokenLookup DefaultJWTConfig\<rparr> else config);
          config = (if AuthScheme config = ''''
                    then config\<lparr>AuthScheme := AuthScheme DefaultJWTConfig\<rparr> else config)
      in config)"

text \<open>
  \<open>JWTWithConfig\<close>: the defaults, the panic on a nil signing key, the extractor chosen
  from \<open>TokenLookup\<close> (\<open>parts[1]\<close> panics when there is no colon), and the handler.
\<close>

definition JWTWithConfig :: "jwt \<Rightarrow> JWTConfig \<Rightarrow> (Context \<Rightarrow> event list \<times> outcome) result" where
  "JWTWithConfig lib config0 =
     (let config = (if Skipper config0 = None
                    then config0\<lparr>Skipper := Skipper DefaultJWTConfig\<rparr> else config0)
      in if SigningKey config = None then Panics
         else
           (let config = with_defaults config;
                parts = Split (TokenLookup config) (CHR '':'')
            in if length parts < 2 then Panics
               else
                 (let extractor = jwtFromHeader (parts ! 1) (AuthScheme config);
                      extractor =
                        (if parts ! 0 = ''query'' then jwtFromQuery (parts ! 1)
                         else if parts ! 0 = ''param'' then jwtFromParam (parts ! 1)
                         else if parts ! 0 = ''cookie'' then jwtFromCookie (parts ! 1)
                         else extractor)
                  in Returns (handler lib config extractor))))"

definition JWT :: "jwt \<Rightarrow> string option \<Rightarrow> (Context \<Rightarrow> event list \<times> outcome) result" where
  "JWT lib key = JWTWithConfig lib (DefaultJWTConfig\<lparr>SigningKey := key\<rparr>)"

text \<open>Running what setup returned: \<open>None\<close> when setup itself panicked.\<close>

fun run ::
  "(Context \<Rightarrow> event list \<times> outcome) result \<Rightarrow> Context \<Rightarrow> (event list \<times> outcome) option" where
  "run Panics c = None"
| "run (Returns h) c = Some (h c)"

section \<open>The priority order, in the words of the specification\<close>

text \<open>
  An ordered list of checks, each a flag mask with the category it selects (its code and
  its message); the first mask with a bit in the error's flags wins, and the generic
  category is taken when none has.
\<close>

fun first_match :: "32 word \<Rightarrow> (32 word \<times> 'a) list \<Rightarrow> 'a \<Rightarrow> 'a" where
  "first_match ve [] generic = generic"
| "first_match ve ((flag, category) # rest) generic =
     (if ve AND flag \<noteq> 0 then category else first_match ve rest generic)"

definition spec_category :: "jwt \<Rightarrow> 32 word \<Rightarrow> int \<times> go_error" where
  "spec_category lib ve =
     first_match ve
       [(ValidationErrorMalformed lib, (TokenMalformed, TokenMalformedErr)),
        (ValidationErrorExpired lib, (TokenExpired, TokenExpiredErr)),
        (ValidationErrorNotValidYet lib, (TokenNotValidYet, TokenNotValidYetErr))]
       (TokenInvalid, TokenInvalidErr)"

text \<open>
  The header rule in the words of the specification: the value starts with the scheme
  followed by one space and is strictly longer than the two together.
\<close>

definition spec_header_match :: "string \<Rightarrow> string \<Rightarrow> bool" where
  "spec_header_match authScheme auth =
     (take (length authScheme + 1) auth = authScheme @ '' ''
      \<and> length auth > length authScheme + 1)"

section \<open>The library's answer to a refusing key function\<close>


section \<open>Concrete requests, tokens and libraries\<close>

text \<open>A request with the given \<open>Authorization\<close> header and nothing else.\<close>

definition request :: "string \<Rightarrow> Context" where
  "request auth =
     \<lparr>Header_Get = (\<lambda>name. if name = ''Authorization'' then auth else ''''),
      QueryParam = (\<lambda>name. ''''), Param = (\<lambda>name. VNil), Cookie = (\<lambda>name. None)\<rparr>"

text \<open>A decoded, not yet verified token with the given algorithm and map claims.\<close>

definition decoded :: "string \<Rightarrow> (string \<rightharpoonup> go_value) \<Rightarrow> Token" where
  "decoded alg m =
     \<lparr>Method_Alg = alg, Header_alg = VString alg, Token_Claims = MapClaims m,
      Token_Valid = False\<rparr>"

text \<open>
  A library whose parsers decode every string to the token \<open>t\<close> and then ask the key
  function: its error makes the token unverifiable (flag 2), the key \<open>secret\<close> makes it
  valid, any other key gives an invalid signature (flag 4). The masks are 1, 16 and 128.
\<close>

definition verify_with ::
  "Token \<Rightarrow> (Token \<Rightarrow> go_error + string option) \<Rightarrow> Token option \<times> go_error option" where
  "verify_with t kf =
     (case kf t of
        Inl e \<Rightarrow> (Some t, Some (ValidationError 2 (Error e)))
      | Inr key \<Rightarrow>
          (if key = Some ''secret'' then (Some (t\<lparr>Token_Valid := True\<rparr>), None)
           else (Some t, Some (ValidationError 4 ''signature is invalid''))))"

definition library_for :: "Token \<Rightarrow> jwt" where
  "library_for t =
     \<lparr>ValidationErrorMalformed = 1, ValidationErrorExpired = 16,
      ValidationErrorNotValidYet = 128,
      Parse = (\<lambda>s kf. verify_with t kf),
      ParseWithClaims = (\<lambda>s ty kf. verify_with t kf)\<rparr>"

text \<open>A library whose parsers return the pair \<open>p\<close> whatever they are given.\<close>

definition library_returning :: "Token option \<times> go_error option \<Rightarrow> jwt" where
  "library_returning p =
     \<lparr>ValidationErrorMalformed = 1, ValidationErrorExpired = 16,
      ValidationErrorNotValidYet = 128,
      Parse = (\<lambda>s kf. p), ParseWithClaims = (\<lambda>s ty kf. p)\<rparr>"

text \<open>Claims maps: a refresh token's, an access token's, and one without \<open>auth_type\<close>.\<close>

definition refresh_claims :: "string \<rightharpoonup> go_value" where
  "refresh_claims = [''auth_type'' \<mapsto> VString ''refresh'']"

definition access_claims :: "string \<rightharpoonup> go_value" where
  "access_claims = [''auth_type'' \<mapsto> VString ''access'']"

definition plain_claims :: "string \<rightharpoonup> go_value" where
  "plain_claims = [''sub'' \<mapsto> VString ''1234567890'', ''name'' \<mapsto> VString ''John Doe'']"

text \<open>Hooks: an error handler that swallows the error, and a skipper that skips all.\<close>

definition swallow_error :: "go_error option \<Rightarrow> go_error option" where
  "swallow_error err = None"

definition skip_all :: "Context \<Rightarrow> bool" where
  "skip_all c = True"

text \<open>Configurations, all with the signing key \<open>secret\<close>.\<close>

definition secret_config :: JWTConfig where
  "secret_config = DefaultJWTConfig\<lparr>SigningKey := Some ''secret''\<rparr>"

definition skipping_config :: JWTConfig where
  "skipping_config = secret_config\<lparr>Skipper := Some skip_all\<rparr>"

definition hooked_config :: JWTConfig where
  "hooked_config = secret_config\<lparr>ErrorHandler := Some swallow_error\<rparr>"

text \<open>The default extractor: the header \<open>Authorization\<close> with the scheme \<open>Bearer\<close>.\<close>

definition bearer :: jwtExtractor where
  "bearer = jwtFromHeader ''Authorization'' ''Bearer''"

section \<open>Unfolding the model\<close>

lemmas setup_defs = JWT_def JWTWithConfig_def with_defaults_def DefaultJWTConfig_def Let_def
  Authorization_def AlgorithmHS256_def DefaultSkipper_def

lemmas handler_defs = handler_def jwtFromHeader_def error_hooks_def judge_def parse_token_def
  is_refresh_def render_invalid_def classify_def keyFunc_def StatusUnauthorized_def

lemmas doris_defs = JWTMissingErr_def TokenRefreshErr_def TokenRefresh_def TokenInvalid_def
  TokenInvalidErr_def TokenMalformed_def TokenMalformedErr_def TokenExpired_def
  TokenExpiredErr_def TokenNotValidYet_def TokenNotValidYetErr_def

lemmas example_defs = request_def decoded_def verify_with_def library_for_def
  library_returning_def refresh_claims_def access_claims_def plain_claims_def
  swallow_error_def skip_all_def secret_config_def skipping_config_def hooked_config_def
  bearer_def

text \<open>
  A request whose token was extracted and parsed is settled by \<open>judge\<close>, after the call of
  \<open>Next\<close> that a true skipper has caused.
\<close>

lemma handler_judge:
  assumes "Skipper config = Some skip"
    and "extractor c = Returns (auth, None)"
    and "parse_token lib config auth = Returns p"
  shows "handler lib config extractor c = judge lib config c (if skip c then [Next] else []) p"
  using assms by (simp add: handler_def)

text \<open>The chain of tests in the source picks what the ordered list picks.\<close>

lemma classify_spec_category:
  "classify lib (Some (ValidationError ve msg)) =
     (fst (spec_category lib ve), Some (snd (spec_category lib ve)))"
  by (simp add: classify_def spec_category_def)

text \<open>
  \<open>SetParam\<close> is called in one place only: for a token that parsed without error and is
  valid, under the configured context key.
\<close>

lemma SetParam_needs_valid:
  assumes "SetParam k t \<in> set (fst (judge lib config c tr p))"
    and "SetParam k t \<notin> set tr"
  shows "p = (Some t, None) \<and> Token_Valid t \<and> k = ContextKey config"
  using assms
  by (auto simp add: judge_def error_hooks_def render_invalid_def
      split: prod.splits option.splits result.splits bool.splits if_splits)

lemma SetParam_only_when_valid:
  assumes "SetParam k t \<in> set (fst (handler lib config extractor c))"
  shows "\<exists>auth. extractor c = Returns (auth, None)
           \<and> parse_token lib config auth = Returns (Some t, None)
           \<and> Token_Valid t \<and> k = ContextKey config"
proof (cases "Skipper config")
  case None
  with assms show ?thesis by (simp add: handler_def)
next
  case (Some skip)
  let ?tr = "if skip c then [Next] else []"
  have tr: "SetParam k t \<notin> set ?tr" by simp
  show ?thesis
  proof (cases "extractor c")
    case Panics
    with assms Some show ?thesis by (simp add: handler_def Let_def split: if_splits)
  next
    case (Returns r)
    obtain auth e where r: "r = (auth, e)" by (cases r)
    show ?thesis
    proof (cases e)
      case (Some err)
      with assms \<open>Skipper config = Some skip\<close> Returns r show ?thesis
        by (auto simp add: handler_def Let_def error_hooks_def split: option.splits if_splits)
    next
      case None
      show ?thesis
      proof (cases "parse_token lib config auth")
        case Panics
        with assms \<open>Skipper config = Some skip\<close> Returns r None show ?thesis
          by (simp add: handler_def Let_def split: if_splits)
      next
        case (Returns p)
        have "handler lib config extractor c = judge lib config c ?tr p"
          using \<open>Skipper config = Some skip\<close> \<open>extractor c = Returns r\<close> r None Returns
          by (simp add: handler_def)
        with assms have "SetParam k t \<in> set (fst (judge lib config c ?tr p))" by simp
        from SetParam_needs_valid [OF this tr]
        show ?thesis using \<open>extractor c = Returns r\<close> r None Returns by simp
      qed
    qed
  qed
qed

section \<open>Setup\<close>

text \<open>
  C7. Setup with a configuration whose signing key is nil panics: \<open>JWTWithConfig\<close> returns
  no handler, whatever the rest of the configuration and the library are.
\<close>

theorem nil_signing_key_panics:
  "SigningKey config = None \<Longrightarrow> JWTWithConfig lib config = Panics"
  by (simp add: JWTWithConfig_def Let_def)

theorem nil_signing_key_panics_witness:
  "SigningKey DefaultJWTConfig = None
   \<and> JWTWithConfig (library_returning (None, None)) DefaultJWTConfig = Panics"
  using nil_signing_key_panics [of DefaultJWTConfig "library_returning (None, None)"]
  by (simp add: DefaultJWTConfig_def)

section \<open>Extraction from a header\<close>

text \<open>
  C4, as stated, fails: with the scheme \<open>Bearer\<close> the value \<open>BearerXabc\<close> does not start
  with the scheme and a space, and the extractor returns the token \<open>abc\<close> for it.
\<close>

theorem header_separator_unchecked:
  "jwtFromHeader ''Authorization'' ''Bearer'' (request ''BearerXabc'') = Returns (''abc'', None)
   \<and> \<not> spec_header_match ''Bearer'' (Header_Get (request ''BearerXabc'') ''Authorization'')"
  by (simp add: jwtFromHeader_def request_def spec_header_match_def)

text \<open>
  C4, amended. The extractor succeeds exactly on a header value made of the scheme, one
  more byte of any value, and a non-empty rest, and returns that rest; every other value
  (absent, shorter, or with another prefix) gives the missing-token error.
\<close>

theorem jwtFromHeader_accepts:
  "(Header_Get c header = authScheme @ sep # rest \<and> rest \<noteq> []
      \<longrightarrow> jwtFromHeader header authScheme c = Returns (rest, None))
   \<and> ((\<nexists>sep rest. Header_Get c header = authScheme @ sep # rest \<and> rest \<noteq> [])
      \<longrightarrow> jwtFromHeader header authScheme c = Returns ('''', Some JWTMissingErr))"
proof (intro conjI impI)
  assume "Header_Get c header = authScheme @ sep # rest \<and> rest \<noteq> []"
  then show "jwtFromHeader header authScheme c = Returns (rest, None)"
    by (auto simp add: jwtFromHeader_def Let_def)
next
  assume no: "\<nexists>sep rest. Header_Get c header = authScheme @ sep # rest \<and> rest \<noteq> []"
  let ?a = "Header_Get c header" and ?l = "length authScheme"
  have "\<not> (length ?a > ?l + 1 \<and> take ?l ?a = authScheme)"
  proof
    assume h: "length ?a > ?l + 1 \<and> take ?l ?a = authScheme"
    then have "?a = authScheme @ (?a ! ?l) # drop (Suc ?l) ?a"
      by (metis Cons_nth_drop_Suc Suc_eq_plus1 Suc_lessD append_take_drop_id)
    moreover have "drop (Suc ?l) ?a \<noteq> []" using h by simp
    ultimately show False using no by blast
  qed
  then show "jwtFromHeader header authScheme c = Returns ('''', Some JWTMissingErr)"
    by (simp add: jwtFromHeader_def Let_def)
qed

theorem jwtFromHeader_accepts_witness:
  "Header_Get (request ''Bearer abc'') ''Authorization'' = ''Bearer'' @ CHR '' '' # ''abc''
   \<and> jwtFromHeader ''Authorization'' ''Bearer'' (request ''Bearer abc'') = Returns (''abc'', None)
   \<and> jwtFromHeader ''Authorization'' ''Bearer'' (request ''Token abc'')
       = Returns ('''', Some JWTMissingErr)"
proof -
  have hdr: "Header_Get (request ''Bearer abc'') ''Authorization'' = ''Bearer'' @ CHR '' '' # ''abc''"
    by (simp add: request_def)
  have no: "\<nexists>sep rest. Header_Get (request ''Token abc'') ''Authorization''
              = ''Bearer'' @ sep # rest \<and> rest \<noteq> []"
    by (simp add: request_def)
  from jwtFromHeader_accepts [of "request ''Bearer abc''" "''Authorization''" "''Bearer''"
      "CHR '' ''" "''abc''"] hdr
  have 1: "jwtFromHeader ''Authorization'' ''Bearer'' (request ''Bearer abc'')
             = Returns (''abc'', None)"
    by simp
  from jwtFromHeader_accepts [of "request ''Token abc''" "''Authorization''" "''Bearer''"] no
  have 2: "jwtFromHeader ''Authorization'' ''Bearer'' (request ''Token abc'')
             = Returns ('''', Some JWTMissingErr)"
    by blast
  from hdr 1 2 show ?thesis by simp
qed

section \<open>Refresh tokens and the \<open>auth_type\<close> claim\<close>

text \<open>
  C3. A request whose token was extracted and parsed to map claims with
  \<open>auth_type = "refresh"\<close> is rejected: the handler writes status 401 with the code 10405,
  aborts and returns the refresh error, and never calls \<open>SetParam\<close>. This holds whatever
  error the parser returned (none, for a valid signature), whether or not the token is
  valid, and whatever hooks are configured. The only call before the response is the
  \<open>Next\<close> of a skipper that returned true.
\<close>

theorem refresh_token_rejected:
  assumes "Skipper config = Some skip"
    and "extractor c = Returns (auth, None)"
    and "parse_token lib config auth = Returns (Some token, err)"
    and "Token_Claims token = MapClaims m"
    and "m ''auth_type'' = Some (VString ''refresh'')"
  shows "handler lib config extractor c =
           ((if skip c then [Next] else [])
              @ [Json 401 10405 ''Invalid or Expired JWT: This token is for refresh!'', Abort],
            Returned (Some TokenRefreshErr))"
proof -
  have "is_refresh (Token_Claims token) = Returns True"
    using assms(4,5) by (simp add: is_refresh_def)
  moreover have "handler lib config extractor c =
      judge lib config c (if skip c then [Next] else []) (Some token, err)"
    using assms(1-3) by (rule handler_judge)
  ultimately show ?thesis
    by (simp add: judge_def StatusUnauthorized_def TokenRefresh_def TokenRefreshErr_def)
qed

text \<open>The witness: a refresh token signed with the configured key and algorithm.\<close>

theorem refresh_token_rejected_witness:
  "Skipper secret_config = Some DefaultSkipper
   \<and> bearer (request ''Bearer abc'') = Returns (''abc'', None)
   \<and> parse_token (library_for (decoded ''HS256'' refresh_claims)) secret_config ''abc''
       = Returns (Some (decoded ''HS256'' refresh_claims\<lparr>Token_Valid := True\<rparr>), None)
   \<and> Token_Claims (decoded ''HS256'' refresh_claims\<lparr>Token_Valid := True\<rparr>)
       = MapClaims refresh_claims
   \<and> refresh_claims ''auth_type'' = Some (VString ''refresh'')
   \<and> handler (library_for (decoded ''HS256'' refresh_claims)) secret_config bearer
         (request ''Bearer abc'')
       = ([Json 401 10405 ''Invalid or Expired JWT: This token is for refresh!'', Abort],
          Returned (Some TokenRefreshErr))"
proof -
  have 1: "Skipper secret_config = Some DefaultSkipper"
    by (simp add: secret_config_def DefaultJWTConfig_def)
  have 2: "bearer (request ''Bearer abc'') = Returns (''abc'', None)"
    by (simp add: bearer_def jwtFromHeader_def request_def)
  have 3: "parse_token (library_for (decoded ''HS256'' refresh_claims)) secret_config ''abc''
       = Returns (Some (decoded ''HS256'' refresh_claims\<lparr>Token_Valid := True\<rparr>), None)"
    by (simp add: parse_token_def keyFunc_def setup_defs example_defs)
  have 4: "Token_Claims (decoded ''HS256'' refresh_claims\<lparr>Token_Valid := True\<rparr>)
       = MapClaims refresh_claims"
    by (simp add: decoded_def)
  have 5: "refresh_claims ''auth_type'' = Some (VString ''refresh'')"
    by (simp add: refresh_claims_def)
  from refresh_token_rejected [where extractor = bearer and c = "request ''Bearer abc''"
      and m = refresh_claims, OF 1 2 3 4 5] 1 2 3 4 5
  show ?thesis
    by (simp add: DefaultSkipper_def)
qed

text \<open>
  C9. A request whose token was extracted and parsed to map claims that have no
  \<open>auth_type\<close> entry, or one that is not a string, makes the handler panic: it writes no
  response, stores nothing and returns nothing, whatever the parser's error was.
\<close>

theorem auth_type_assertion_panics:
  assumes "Skipper config = Some skip"
    and "extractor c = Returns (auth, None)"
    and "parse_token lib config auth = Returns (Some token, err)"
    and "Token_Claims token = MapClaims m"
    and "m ''auth_type'' = None \<or> (\<exists>v. m ''auth_type'' = Some v \<and> (\<forall>s. v \<noteq> VString s))"
  shows "handler lib config extractor c = (if skip c then [Next] else [], Panicked)"
proof -
  have "is_refresh (Token_Claims token) = Panics"
    using assms(4,5) by (auto simp add: is_refresh_def split: option.splits go_value.splits)
  moreover have "handler lib config extractor c =
      judge lib config c (if skip c then [Next] else []) (Some token, err)"
    using assms(1-3) by (rule handler_judge)
  ultimately show ?thesis
    by (simp add: judge_def)
qed

text \<open>The witness: a token with the claims \<open>sub\<close> and \<open>name\<close> only, validly signed.\<close>

theorem auth_type_assertion_panics_witness:
  "Skipper secret_config = Some DefaultSkipper
   \<and> bearer (request ''Bearer abc'') = Returns (''abc'', None)
   \<and> parse_token (library_for (decoded ''HS256'' plain_claims)) secret_config ''abc''
       = Returns (Some (decoded ''HS256'' plain_claims\<lparr>Token_Valid := True\<rparr>), None)
   \<and> Token_Claims (decoded ''HS256'' plain_claims\<lparr>Token_Valid := True\<rparr>)
       = MapClaims plain_claims
   \<and> plain_claims ''auth_type'' = None
   \<and> handler (library_for (decoded ''HS256'' plain_claims)) secret_config bearer
         (request ''Bearer abc'')
       = ([], Panicked)"
proof -
  have 1: "Skipper secret_config = Some DefaultSkipper"
    by (simp add: secret_config_def DefaultJWTConfig_def)
  have 2: "bearer (request ''Bearer abc'') = Returns (''abc'', None)"
    by (simp add: bearer_def jwtFromHeader_def request_def)
  have 3: "parse_token (library_for (decoded ''HS256'' plain_claims)) secret_config ''abc''
       = Returns (Some (decoded ''HS256'' plain_claims\<lparr>Token_Valid := True\<rparr>), None)"
    by (simp add: parse_token_def keyFunc_def setup_defs example_defs)
  have 4: "Token_Claims (decoded ''HS256'' plain_claims\<lparr>Token_Valid := True\<rparr>)
       = MapClaims plain_claims"
    by (simp add: decoded_def)
  have 5: "plain_claims ''auth_type'' = None"
    by (simp add: plain_claims_def)
  have 6: "plain_claims ''auth_type'' = None
           \<or> (\<exists>v. plain_claims ''auth_type'' = Some v \<and> (\<forall>s. v \<noteq> VString s))"
    using 5 by simp
  from auth_type_assertion_panics [where extractor = bearer and c = "request ''Bearer abc''"
      and m = plain_claims, OF 1 2 3 4 6] 1 2 3 4 5
  show ?thesis
    by (simp add: DefaultSkipper_def)
qed

section \<open>Classification of validation errors\<close>

text \<open>
  C8, as stated, fails: not every validation error of the parser is reported by the
  priority of its flags. With the default configuration, an error with the flag Expired
  (16) alone for a token whose map claims carry \<open>auth_type = "refresh"\<close> is answered with
  the refresh code 10405 and the refresh message, where the priority order selects
  Expired, code 10400: the refresh test comes before the check of the error type. And an
  error with the flag Malformed (1) for which the parser returns no token makes the
  handler panic, so that nothing is reported.
\<close>

theorem validation_error_not_by_priority:
  "spec_category
      (library_returning (Some (decoded ''HS256'' refresh_claims),
                          Some (ValidationError 16 ''token is expired'')))
      16
     = (10400, TokenExpiredErr)
   \<and> run (JWTWithConfig
            (library_returning (Some (decoded ''HS256'' refresh_claims),
                                Some (ValidationError 16 ''token is expired'')))
            secret_config)
         (request ''Bearer abc'')
     = Some ([Json 401 10405 ''Invalid or Expired JWT: This token is for refresh!'', Abort],
             Returned (Some TokenRefreshErr))
   \<and> run (JWTWithConfig
            (library_returning (None, Some (ValidationError 1 ''token is malformed'')))
            secret_config)
         (request ''Bearer abc'')
     = Some ([], Panicked)"
  by (simp add: spec_category_def setup_defs handler_defs doris_defs example_defs)

text \<open>
  C8, amended. For a validation error of the parser, the chain of tests in the handler
  selects the category that the ordered list Malformed, Expired, NotValidYet selects by
  first match, the generic category when no flag of the three is set. When the parser
  has returned a token with the error, the token's claims pass the refresh test (they are
  not map claims, or their \<open>auth_type\<close> is a string other than \<open>refresh\<close>) and no error hook
  is configured, that category's code and message are the ones written, with status 401.
\<close>

theorem category_by_priority:
  assumes "Skipper config = Some skip"
    and "extractor c = Returns (auth, None)"
    and "parse_token lib config auth = Returns (Some token, Some (ValidationError ve msg))"
    and "is_refresh (Token_Claims token) = Returns False"
    and "ErrorHandler config = None"
    and "ErrorHandlerWithContext config = None"
  shows "classify lib (Some (ValidationError ve msg)) =
           (fst (spec_category lib ve), Some (snd (spec_category lib ve)))
         \<and> handler lib config extractor c =
           ((if skip c then [Next] else [])
              @ [Json 401 (fst (spec_category lib ve))
                   (''Invalid or Expired JWT: '' @ Error (snd (spec_category lib ve))
                      @ '' [ origin err: '' @ msg @ '' ] ''),
                 Abort],
            Returned (Some (ValidationError ve msg)))"
proof -
  have "handler lib config extractor c =
      judge lib config c (if skip c then [Next] else [])
        (Some token, Some (ValidationError ve msg))"
    using assms(1-3) by (rule handler_judge)
  then show ?thesis
    using assms(4-6)
    by (simp add: judge_def error_hooks_def render_invalid_def classify_spec_category
        StatusUnauthorized_def)
qed

text \<open>
  The witness: an error with the flags Malformed (1) and Expired (16) both set is
  reported as Malformed, code 10402.
\<close>

theorem category_by_priority_witness:
  "Skipper secret_config = Some DefaultSkipper
   \<and> bearer (request ''Bearer abc'') = Returns (''abc'', None)
   \<and> parse_token
        (library_returning (Some (decoded ''HS256'' access_claims),
                            Some (ValidationError 17 ''malformed and expired'')))
        secret_config ''abc''
       = Returns (Some (decoded ''HS256'' access_claims),
                  Some (ValidationError 17 ''malformed and expired''))
   \<and> is_refresh (Token_Claims (decoded ''HS256'' access_claims)) = Returns False
   \<and> ErrorHandler secret_config = None
   \<and> ErrorHandlerWithContext secret_config = None
   \<and> handler
        (library_returning (Some (decoded ''HS256'' access_claims),
                            Some (ValidationError 17 ''malformed and expired'')))
        secret_config bearer (request ''Bearer abc'')
       = ([Json 401 10402
             ''Invalid or Expired JWT: That's not even a token [ origin err: malformed and expired ] '',
           Abort],
          Returned (Some (ValidationError 17 ''malformed and expired'')))"
proof -
  let ?lib = "library_returning (Some (decoded ''HS256'' access_claims),
                                 Some (ValidationError 17 ''malformed and expired''))"
  have 1: "Skipper secret_config = Some DefaultSkipper"
    by (simp add: secret_config_def DefaultJWTConfig_def)
  have 2: "bearer (request ''Bearer abc'') = Returns (''abc'', None)"
    by (simp add: bearer_def jwtFromHeader_def request_def)
  have 3: "parse_token ?lib secret_config ''abc''
       = Returns (Some (decoded ''HS256'' access_claims),
                  Some (ValidationError 17 ''malformed and expired''))"
    by (simp add: parse_token_def secret_config_def DefaultJWTConfig_def library_returning_def)
  have 4: "is_refresh (Token_Claims (decoded ''HS256'' access_claims)) = Returns False"
    by (simp add: is_refresh_def decoded_def access_claims_def)
  have 5: "ErrorHandler secret_config = None"
    by (simp add: secret_config_def DefaultJWTConfig_def)
  have 6: "ErrorHandlerWithContext secret_config = None"
    by (simp add: secret_config_def DefaultJWTConfig_def)
  have 7: "spec_category ?lib 17 = (10402, TokenMalformedErr)"
    by (simp add: spec_category_def library_returning_def TokenMalformed_def)
  from category_by_priority [where extractor = bearer and c = "request ''Bearer abc''",
      OF 1 2 3 4 5 6] 1 2 3 4 5 6
  show ?thesis
    by (simp add: 7 DefaultSkipper_def TokenMalformedErr_def)
qed

section \<open>A signing method other than the configured one\<close>




section \<open>Where the handler leaves its documented behaviour\<close>

text \<open>
  C1. The default middleware with the key \<open>secret\<close>, on a request without an
  \<open>Authorization\<close> header: extraction fails with the missing-token error, and the handler
  writes status 401 and the body code 401, then aborts and returns the error. The
  documented status for a missing token is 400.
\<close>

theorem missing_token_answers_401:
  "run (JWT (library_for (decoded ''HS256'' access_claims)) (Some ''secret'')) (request '''')
     = Some ([Json 401 401 ''JWT ERR: Missing or Malformed JWT'', Abort],
             Returned (Some JWTMissingErr))"
  by (simp add: setup_defs handler_defs doris_defs example_defs)

text \<open>
  C2. With a skipper that returns true, on a request without an \<open>Authorization\<close> header,
  the handler calls \<open>Next\<close> and then goes on: it extracts, fails, writes the rejection,
  aborts and returns the error.
\<close>

theorem skipped_request_still_judged:
  "skip_all (request '''')
   \<and> run (JWTWithConfig (library_for (decoded ''HS256'' access_claims)) skipping_config)
         (request '''')
     = Some ([Next, Json 401 401 ''JWT ERR: Missing or Malformed JWT'', Abort],
             Returned (Some JWTMissingErr))"
  by (simp add: setup_defs handler_defs doris_defs example_defs)

text \<open>
  C6. With an error handler configured, a request with a refresh token is answered by the
  handler itself: it writes the default body with status 401 and code 10405, aborts and
  returns the refresh error; the hook is not called.
\<close>

theorem refresh_rejection_ignores_hook:
  "ErrorHandler hooked_config = Some swallow_error
   \<and> run (JWTWithConfig (library_for (decoded ''HS256'' refresh_claims)) hooked_config)
         (request ''Bearer abc'')
     = Some ([Json 401 10405 ''Invalid or Expired JWT: This token is for refresh!'', Abort],
             Returned (Some TokenRefreshErr))"
  by (simp add: setup_defs handler_defs doris_defs example_defs)

text \<open>
  C10. With a skipper that returns true, a request with a valid access token is passed
  on by \<open>Next\<close> and then verified all the same: the token is stored under the context key
  \<open>user\<close>, after the first call of \<open>Next\<close>, and \<open>Next\<close> is called a second time.
\<close>

theorem skipped_request_stores_token:
  "skip_all (request ''Bearer abc'')
   \<and> run (JWTWithConfig (library_for (decoded ''HS256'' access_claims)) skipping_config)
         (request ''Bearer abc'')
     = Some ([Next,
              SetParam ''user'' (decoded ''HS256'' access_claims\<lparr>Token_Valid := True\<rparr>),
              Next],
             Returned None)"
  by (simp add: setup_defs handler_defs doris_defs example_defs)

end
